theory Spec2Isabelle
  imports Complex_Main "HOL-Library.Word"
begin

unbundle bit_operations_syntax

section \<open>Common types\<close>

text \<open>
  Python exceptions are values: a call returns \<open>error + 'a\<close>, with \<open>Inl\<close> carrying the
  exception class and its message.
\<close>

datatype error =
    ValueError string
  | AssertionError string
  | TypeError string
  | RuntimeError string
  | AttributeError string

section \<open>NF4 quantisation (\<open>easydel/layers/quantization/linear_nf4.py\<close>)\<close>

subsection \<open>Floating-point values\<close>

text \<open>
  The quantiser works on float32 arrays. A value is a finite number, one of the two
  infinities, or NaN. Finite arithmetic is carried out on the reals: rounding and overflow
  to infinity are not part of the model, and there is a single zero. The special cases
  follow IEEE 754: \<open>0 / 0\<close> and \<open>\<infinity> / \<infinity>\<close> are NaN, \<open>x / 0\<close> is an infinity for
  \<open>x \<noteq> 0\<close>, \<open>0 * \<infinity>\<close> is NaN, and NaN propagates.
\<close>

datatype fl = Fin real | PInf | NInf | NaN

fun fabs :: "fl \<Rightarrow> fl" where
  "fabs (Fin a) = Fin \<bar>a\<bar>"
| "fabs PInf = PInf"
| "fabs NInf = PInf"
| "fabs NaN = NaN"

text \<open>
  The order used by \<open>jnp.searchsorted\<close> is the total order of \<open>jnp.sort\<close>: NaN is
  greater than every other value.
\<close>

fun flt :: "fl \<Rightarrow> fl \<Rightarrow> bool" where
  "flt NaN _ = False"
| "flt _ NaN = True"
| "flt _ NInf = False"
| "flt NInf _ = True"
| "flt PInf _ = False"
| "flt (Fin a) PInf = True"
| "flt (Fin a) (Fin b) = (a < b)"

text \<open>\<open>jnp.max\<close> propagates NaN.\<close>

fun fmax :: "fl \<Rightarrow> fl \<Rightarrow> fl" where
  "fmax NaN _ = NaN"
| "fmax _ NaN = NaN"
| "fmax a b = (if flt a b then b else a)"

fun fdiv :: "fl \<Rightarrow> fl \<Rightarrow> fl" where
  "fdiv NaN _ = NaN"
| "fdiv _ NaN = NaN"
| "fdiv (Fin a) (Fin b) =
     (if b \<noteq> 0 then Fin (a / b)
      else if a = 0 then NaN
      else if 0 < a then PInf else NInf)"
| "fdiv (Fin a) _ = Fin 0"
| "fdiv PInf (Fin b) = (if 0 \<le> b then PInf else NInf)"
| "fdiv NInf (Fin b) = (if 0 \<le> b then NInf else PInf)"
| "fdiv _ _ = NaN"

fun fmul :: "fl \<Rightarrow> fl \<Rightarrow> fl" where
  "fmul NaN _ = NaN"
| "fmul _ NaN = NaN"
| "fmul (Fin a) (Fin b) = Fin (a * b)"
| "fmul (Fin a) PInf = (if a = 0 then NaN else if 0 < a then PInf else NInf)"
| "fmul (Fin a) NInf = (if a = 0 then NaN else if 0 < a then NInf else PInf)"
| "fmul PInf (Fin b) = (if b = 0 then NaN else if 0 < b then PInf else NInf)"
| "fmul NInf (Fin b) = (if b = 0 then NaN else if 0 < b then NInf else PInf)"
| "fmul PInf PInf = PInf"
| "fmul NInf NInf = PInf"
| "fmul _ _ = NInf"

subsection \<open>Tables\<close>

definition NF4_TABLE :: "fl list" where
  "NF4_TABLE = map Fin
     [-1,
      -6961928009986877 / 10 ^ 16,
      -5250730514526367 / 10 ^ 16,
      -39491748809814453 / 10 ^ 17,
      -28444138169288635 / 10 ^ 17,
      -18477343022823334 / 10 ^ 17,
      -9105003625154495 / 10 ^ 17,
      0,
      7958029955625534 / 10 ^ 17,
      16093020141124725 / 10 ^ 17,
      24611230194568634 / 10 ^ 17,
      33791524171829224 / 10 ^ 17,
      44070982933044434 / 10 ^ 17,
      5626170039176941 / 10 ^ 16,
      7229568362236023 / 10 ^ 16,
      1]"

definition NF4_BOUNDARIES :: "fl list" where
  "NF4_BOUNDARIES = NInf # map Fin
     [-8480964004993439 / 10 ^ 16,
      -6106329262256622 / 10 ^ 16,
      -4599952697753906 / 10 ^ 16,
      -33967943489551544 / 10 ^ 17,
      -23460740596055984 / 10 ^ 17,
      -13791173323988914 / 10 ^ 17,
      -45525018125772476 / 10 ^ 18,
      3979014977812767 / 10 ^ 17,
      1202552504837513 / 10 ^ 16,
      2035212516784668 / 10 ^ 16,
      2920137718319893 / 10 ^ 16,
      3893125355243683 / 10 ^ 16,
      5016634166240692 / 10 ^ 16,
      6427869200706482 / 10 ^ 16,
      8614784181118011 / 10 ^ 16]"

subsection \<open>Array helpers\<close>

text \<open>
  \<open>jnp.searchsorted(a, v)\<close> with the default \<open>side='left'\<close>: the index of the first entry
  of the sorted array \<open>a\<close> that is not below \<open>v\<close>.
\<close>

definition searchsorted :: "fl list \<Rightarrow> fl \<Rightarrow> nat" where
  "searchsorted a v = length (takeWhile (\<lambda>b. flt b v) a)"

text \<open>
  Arrays are held by their row-major data. \<open>rows_of nb bs xs\<close> are the \<open>nb\<close> rows of
  width \<open>bs\<close>; \<open>reshape_rows n\<close> is \<open>reshape(-1, n)\<close> and \<open>reshape_to nb bs\<close> is
  \<open>reshape(nb, bs)\<close>. Both raise when the element count does not fit.
\<close>

definition rows_of :: "nat \<Rightarrow> nat \<Rightarrow> 'a list \<Rightarrow> 'a list list" where
  "rows_of nb bs xs = map (\<lambda>i. take bs (drop (i * bs) xs)) [0..<nb]"

definition reshape_rows :: "nat \<Rightarrow> 'a list \<Rightarrow> error + 'a list list" where
  "reshape_rows n xs =
     (if n = 0 \<or> length xs mod n \<noteq> 0
      then Inl (TypeError ''cannot reshape array'')
      else Inr (rows_of (length xs div n) n xs))"

definition reshape_to :: "nat \<Rightarrow> nat \<Rightarrow> 'a list \<Rightarrow> error + 'a list list" where
  "reshape_to nb bs xs =
     (if nb * bs \<noteq> length xs
      then Inl (TypeError ''cannot reshape array'')
      else Inr (rows_of nb bs xs))"

text \<open>
  \<open>jnp.max(..., axis=1)\<close> of one row. The empty row is not reached: a block size of 0
  fails at the reshape before.
\<close>

fun row_max :: "fl list \<Rightarrow> fl" where
  "row_max [] = NInf"
| "row_max (x # xs) = fold fmax xs x"

subsection \<open>\<open>single_quantize_and_pack_nf4\<close>\<close>

text \<open>
  The codes are int32 values; \<open>(quantized[:, 0] << 4) | quantized[:, 1]\<close> is computed on
  them and \<open>astype(jnp.uint8)\<close> keeps the low eight bits.
\<close>

definition pack_row :: "int list \<Rightarrow> 8 word" where
  "pack_row q = word_of_int (push_bit 4 (q ! 0) OR (q ! 1))"

definition pack_codes :: "int list \<Rightarrow> error + 8 word list" where
  "pack_codes quantized =
     (case reshape_rows 2 quantized of
        Inl e \<Rightarrow> Inl e
      | Inr pairs \<Rightarrow> Inr (map pack_row pairs))"

definition single_quantize_and_pack_nf4 ::
    "fl list \<Rightarrow> nat \<Rightarrow> error + (8 word list \<times> fl list)" where
  "single_quantize_and_pack_nf4 blocks block_size =
     (case reshape_rows block_size blocks of
        Inl e \<Rightarrow> Inl e
      | Inr rows \<Rightarrow>
          let absmax = map (\<lambda>row. row_max (map fabs row)) rows;
              normalized = map2 (\<lambda>row a. map (\<lambda>v. fdiv v a) row) rows absmax;
              quantized = map (\<lambda>v. int (searchsorted NF4_BOUNDARIES v) - 1) (concat normalized)
          in (case pack_codes quantized of
                Inl e \<Rightarrow> Inl e
              | Inr packed \<Rightarrow> Inr (packed, absmax)))"

subsection \<open>\<open>single_dequantize_nf4\<close>\<close>

definition unpack_byte :: "8 word \<Rightarrow> 8 word list" where
  "unpack_byte p = [drop_bit 4 p AND 0xF, p AND 0xF]"

definition unpack_nibbles :: "8 word list \<Rightarrow> 8 word list" where
  "unpack_nibbles packed_values = concat (map unpack_byte packed_values)"

text \<open>\<open>NF4_TABLE[unpacked]\<close>; the index is a nibble, so it is always in range.\<close>

definition nf4_lookup :: "8 word \<Rightarrow> fl" where
  "nf4_lookup c = NF4_TABLE ! unat c"

definition single_dequantize_nf4 ::
    "8 word list \<Rightarrow> fl list \<Rightarrow> nat \<Rightarrow> error + fl list list" where
  "single_dequantize_nf4 packed_values absmax block_size =
     (let unpacked = unpack_nibbles packed_values;
          dequantized = map nf4_lookup unpacked;
          num_blocks = length absmax
      in (case reshape_to num_blocks block_size dequantized of
            Inl e \<Rightarrow> Inl e
          | Inr rows \<Rightarrow> Inr (map2 (\<lambda>row a. map (\<lambda>v. fmul v a) row) rows absmax)))"


subsection \<open>\<open>LinearNF4\<close>\<close>

text \<open>
  \<open>quantize_and_pack_nf4\<close> maps itself over the leading axis of an array with more than
  two dimensions and otherwise calls \<open>single_quantize_and_pack_nf4\<close>. A kernel of
  \<open>LinearNF4\<close> has the two dimensions \<open>(in_features, out_features)\<close>.
\<close>

definition quantize_and_pack_nf4 :: "fl list \<Rightarrow> nat \<Rightarrow> error + (8 word list \<times> fl list)" where
  "quantize_and_pack_nf4 blocks block_size = single_quantize_and_pack_nf4 blocks block_size"

text \<open>
  The static method \<open>_quantize_kernel(kernel, block_size)\<close> has two required positional
  parameters and no defaults. An argument that the caller does not pass is \<open>None\<close> here,
  and binding the parameters raises Python's \<open>TypeError\<close> before the body runs.
\<close>

definition LinearNF4_quantize_kernel ::
    "fl list \<Rightarrow> nat option \<Rightarrow> error + (8 word list \<times> fl list)" where
  "LinearNF4_quantize_kernel kern block_size =
     (case block_size of
        None \<Rightarrow> Inl (TypeError
          ''_quantize_kernel() missing 1 required positional argument: block_size'')
      | Some bs \<Rightarrow> quantize_and_pack_nf4 kern bs)"

record LinearNF4 =
  packed_kernel :: "8 word list option"
  scales :: "fl list option"
  bias :: "fl list option"
  in_features :: nat
  out_features :: nat
  use_bias :: bool
  block_size :: nat

text \<open>
  \<open>rngs.params()\<close> hands out a fresh key and advances the stream; the stream is a counter.
  The initialisers are the caller's \<open>kernel_init\<close> and \<open>bias_init\<close>, from a key and a
  shape to an array. The remaining constructor arguments (\<open>dtype\<close>, \<open>param_dtype\<close>,
  \<open>precision\<close>, \<open>dot_general\<close>) are stored unchanged and take no part in a decision.
\<close>

definition rngs_params :: "nat \<Rightarrow> nat \<times> nat" where
  "rngs_params rngs = (rngs, Suc rngs)"

definition LinearNF4_init ::
    "nat \<Rightarrow> nat \<Rightarrow> bool \<Rightarrow> bool \<Rightarrow> (nat \<Rightarrow> nat \<times> nat \<Rightarrow> fl list) \<Rightarrow>
     (nat \<Rightarrow> nat \<Rightarrow> fl list) \<Rightarrow> nat \<Rightarrow> nat \<Rightarrow> error + LinearNF4" where
  "LinearNF4_init in_f out_f use_b do_init kernel_init bias_init rngs bsize =
     (case (if do_init
            then (let (kernel_key, rngs1) = rngs_params rngs;
                      kern = kernel_init kernel_key (in_f, out_f)
                  in (case LinearNF4_quantize_kernel kern None of
                        Inl e \<Rightarrow> Inl e
                      | Inr (p, s) \<Rightarrow> Inr (Some p, Some s, rngs1)))
            else Inr (None, None, rngs)) of
        Inl e \<Rightarrow> Inl e
      | Inr (p, s, rngs1) \<Rightarrow>
          Inr \<lparr> packed_kernel = p, scales = s,
                bias = (if use_b \<and> do_init
                        then Some (bias_init (fst (rngs_params rngs1)) out_f) else None),
                in_features = in_f, out_features = out_f, use_bias = use_b,
                block_size = bsize \<rparr>)"

section \<open>The DBRX router (\<open>easydel/modules/dbrx/modelling_dbrx_flax.py\<close>)\<close>

text \<open>
  The router sees an array of shape \<open>(batch, sequence, hidden)\<close>. Every operation of the
  router acts on the last axis or on the row-major order of all elements, so the array is
  held as the list of its token rows in row-major order: the token at \<open>(b, s)\<close> is row
  \<open>b * sequence + s\<close>, its flattened token index. Numbers are reals; the casts between
  float types are the identity.
\<close>

record DbrxFFNConfig =
  moe_num_experts :: nat
  moe_top_k :: nat
  moe_jitter_eps :: "real option"
  moe_normalize_expert_weights :: "real option"
  uniform_expert_assignment :: bool

text \<open>
  \<open>DbrxRouter\<close> is a \<open>flax.nnx\<close> module. Line 473 asks it for \<open>make_rng\<close>, which
  such a module does not have (everywhere else the file draws its keys with
  \<open>self.rngs.params()\<close>): the attribute lookup raises \<open>AttributeError\<close>.
\<close>

definition DbrxRouter_make_rng :: "error + (string \<Rightarrow> nat)" where
  "DbrxRouter_make_rng = Inl (AttributeError ''DbrxRouter object has no attribute make_rng'')"

text \<open>
  \<open>DbrxRouter.jitter\<close>. The arguments of \<open>jax.random.normal\<close> are evaluated first, so
  the failing lookup of line 473 comes before any sample is drawn. \<open>normal\<close> stands for
  the array that \<open>jax.random.normal\<close> would return, entry by entry.
\<close>

definition jitter ::
    "DbrxFFNConfig \<Rightarrow> (nat \<Rightarrow> nat \<Rightarrow> real) \<Rightarrow> real list list \<Rightarrow> error + real list list" where
  "jitter cfg normal x =
     (case moe_jitter_eps cfg of
        None \<Rightarrow> Inl (RuntimeError ''The router does not have moe_jitter_eps set.'')
      | Some eps \<Rightarrow>
          let low = 1 - eps;
              high = 1 + eps
          in (case DbrxRouter_make_rng of
                Inl e \<Rightarrow> Inl e
              | Inr make_rng \<Rightarrow>
                  let noise = map (\<lambda>t. map (\<lambda>h. normal t h) [0..<length (x ! t)])
                                [0..<length x]
                  in Inr (map (map (\<lambda>n. low + n * (high - low))) noise)))"

text \<open>
  \<open>jax.nn.softmax\<close> over the last axis. The library subtracts the maximum of the row
  before it exponentiates; on the reals the quotient is the same.
\<close>

definition softmax :: "real list \<Rightarrow> real list" where
  "softmax l = map (\<lambda>v. exp v / (\<Sum>u\<leftarrow>l. exp u)) l"

text \<open>
  \<open>jax.lax.top_k\<close> on one row: the \<open>k\<close> largest entries in descending order with their
  indices, equal entries in index order. It raises when \<open>k\<close> exceeds the row length.
\<close>

definition top_k :: "real list \<Rightarrow> nat \<Rightarrow> error + (real list \<times> int list)" where
  "top_k operand k =
     (if length operand < k
      then Inl (ValueError ''k argument to top_k must be no larger than minor dimension'')
      else let idx = take k (sort_key (\<lambda>i. - (operand ! i)) [0..<length operand])
           in Inr (map (\<lambda>i. operand ! i) idx, map int idx))"

fun collect :: "(error + 'a) list \<Rightarrow> error + 'a list" where
  "collect [] = Inr []"
| "collect (r # rs) =
     (case r of
        Inl e \<Rightarrow> Inl e
      | Inr v \<Rightarrow> (case collect rs of Inl e \<Rightarrow> Inl e | Inr vs \<Rightarrow> Inr (v # vs)))"

text \<open>Python's \<open>int(x)\<close> on a float truncates towards zero.\<close>

definition py_int :: "real \<Rightarrow> int" where
  "py_int r = (if 0 \<le> r then \<lfloor>r\<rfloor> else \<lceil>r\<rceil>)"

text \<open>
  \<open>jnp.linalg.norm(v, ord=ord, axis=-1, keepdims=True)\<close> on one row, for an integer
  order: the Euclidean norm for 2, the number of non-zero entries for 0, the sum of the
  absolute values for 1, and \<open>(\<Sum> \<bar>x\<bar> ^ ord) ^ (1 / ord)\<close> otherwise. On the reals a
  division by a zero norm gives 0 where floating point gives an infinity or NaN; the
  weights of a softmax are positive, and so is their norm.
\<close>

definition vector_norm :: "int \<Rightarrow> real list \<Rightarrow> real" where
  "vector_norm ord v =
     (if ord = 2 then sqrt (\<Sum>x\<leftarrow>v. x * x)
      else if ord = 0 then real (length (filter (\<lambda>x. x \<noteq> 0) v))
      else if ord = 1 then (\<Sum>x\<leftarrow>v. \<bar>x\<bar>)
      else (\<Sum>x\<leftarrow>v. \<bar>x\<bar> powr real_of_int ord) powr (1 / real_of_int ord))"

text \<open>An int32 result wraps around.\<close>

definition wrap_i32 :: "int \<Rightarrow> int" where
  "wrap_i32 n = (n + 2 ^ 31) mod 2 ^ 32 - 2 ^ 31"

text \<open>
  The override of lines 494 to 507: \<open>jnp.arange(0, prod(shape)) % moe_num_experts\<close>,
  reshaped to the shape of \<open>top_experts\<close>. The product of the shape is an int32; with
  \<open>tokens\<close> rows of \<open>k\<close> entries it is \<open>tokens * k\<close>.
\<close>

definition uniform_experts :: "nat \<Rightarrow> nat \<Rightarrow> nat \<Rightarrow> error + int list list" where
  "uniform_experts tokens k num_experts =
     (let n = wrap_i32 (int (tokens * k));
          ar = map (\<lambda>i. int i mod int num_experts) [0..<nat n]
      in reshape_to tokens k ar)"

text \<open>Lines 479 to 482: the optional jitter and the linear layer, applied to every token.\<close>

definition DbrxRouter_logits ::
    "DbrxFFNConfig \<Rightarrow> (real list \<Rightarrow> real list) \<Rightarrow> (nat \<Rightarrow> nat \<Rightarrow> real) \<Rightarrow>
     real list list \<Rightarrow> bool \<Rightarrow> error + real list list" where
  "DbrxRouter_logits cfg layer normal x deterministic =
     (if \<not> deterministic \<and> moe_jitter_eps cfg \<noteq> None
      then (case jitter cfg normal x of
              Inl e \<Rightarrow> Inl e
            | Inr j \<Rightarrow> Inr (map layer (map2 (map2 (*)) x j)))
      else Inr (map layer x))"

text \<open>Lines 483 to 511: from the logits to \<open>(weights, top_weights, top_experts)\<close>.\<close>

definition DbrxRouter_route ::
    "DbrxFFNConfig \<Rightarrow> real list list \<Rightarrow>
     error + (real list list \<times> real list list \<times> int list list)" where
  "DbrxRouter_route cfg logits =
     (let weights = map softmax logits
      in (case collect (map (\<lambda>w. top_k w (moe_top_k cfg)) weights) of
            Inl e \<Rightarrow> Inl e
          | Inr tk \<Rightarrow>
              let top_weights = map fst tk;
                  top_experts = map snd tk;
                  top_weights =
                    (case moe_normalize_expert_weights cfg of
                       None \<Rightarrow> top_weights
                     | Some p \<Rightarrow>
                         if p = 0 then top_weights
                         else map (\<lambda>tw. map (\<lambda>w. w / vector_norm (py_int p) tw) tw) top_weights)
              in (case (if uniform_expert_assignment cfg
                        then uniform_experts (length top_experts) (moe_top_k cfg)
                               (moe_num_experts cfg)
                        else Inr top_experts) of
                    Inl e \<Rightarrow> Inl e
                  | Inr top_experts \<Rightarrow> Inr (weights, top_weights, top_experts))))"

definition DbrxRouter_call ::
    "DbrxFFNConfig \<Rightarrow> (real list \<Rightarrow> real list) \<Rightarrow> (nat \<Rightarrow> nat \<Rightarrow> real) \<Rightarrow>
     real list list \<Rightarrow> bool \<Rightarrow> error + (real list list \<times> real list list \<times> int list list)" where
  "DbrxRouter_call cfg layer normal x deterministic =
     (case DbrxRouter_logits cfg layer normal x deterministic of
        Inl e \<Rightarrow> Inl e
      | Inr logits \<Rightarrow> DbrxRouter_route cfg logits)"

section \<open>Model forward calls\<close>

text \<open>
  \<open>input_ids\<close> is an integer array of shape \<open>(batch, sequence)\<close> and the embeddings are
  an array of shape \<open>(batch, sequence, hidden)\<close>; each is held with its batch size, its
  sequence length and its rows. An argument left at \<open>None\<close> is \<open>None\<close>.
\<close>

datatype 'a batch = Batch (batch_len: nat) (seq_len: nat) (batch_rows: "'a list")

text \<open>
  The embedding layer looks every token up in its table. The stack of decoder blocks and
  the final norm are the parameter \<open>layers\<close>: the attention module and the cache they
  run on are outside the modelling files.
\<close>

definition embed :: "(int \<Rightarrow> 'h) \<Rightarrow> int batch \<Rightarrow> 'h batch" where
  "embed table ids = Batch (batch_len ids) (seq_len ids) (map table (batch_rows ids))"

text \<open>Python's \<open>str\<close> of a non-negative integer, for the formatted messages.\<close>

definition digit_char :: "nat \<Rightarrow> char" where
  "digit_char d = ''0123456789'' ! d"

function str_nat :: "nat \<Rightarrow> string" where
  "str_nat n = (if n < 10 then [digit_char n] else str_nat (n div 10) @ [digit_char (n mod 10)])"
  by pat_completeness auto
termination
  by (relation "measure id") auto

declare str_nat.simps [simp del]

definition max_position_message :: "nat \<Rightarrow> nat \<Rightarrow> string" where
  "max_position_message max_position sequence_length =
     ''Maximum Position Embedding Reached ! (Excepted <= '' @ str_nat max_position
       @ '' got '' @ str_nat sequence_length @ '')''"

subsection \<open>Mistral (\<open>easydel/modules/mistral/modeling_mistral_flax.py\<close>)\<close>

record MistralConfig =
  max_position_embeddings :: nat
  tie_word_embeddings :: bool
  use_scan_mlp :: bool
  scan_mlp_chunk_size :: nat

definition MistralModel_call ::
    "MistralConfig \<Rightarrow> (int \<Rightarrow> 'h) \<Rightarrow> ('h batch \<Rightarrow> 'o) \<Rightarrow>
     int batch option \<Rightarrow> 'h batch option \<Rightarrow> error + 'o" where
  "MistralModel_call config embed_tokens layers input_ids inputs_embeds =
     (if (input_ids = None) \<noteq> (inputs_embeds \<noteq> None)
      then Inl (ValueError
        ''You cannot specify both input_ids and inputs_embeds at the same time, and must specify either one'')
      else
        let inputs_embeds =
              (case inputs_embeds of
                 None \<Rightarrow> map_option (embed embed_tokens) input_ids
               | Some e \<Rightarrow> Some e)
        in (case inputs_embeds of
              None \<Rightarrow> Inl (AttributeError ''NoneType object has no attribute astype'')
            | Some e \<Rightarrow>
                let sequence_length = seq_len e
                in if \<not> sequence_length \<le> max_position_embeddings config
                   then Inl (AssertionError
                     (max_position_message (max_position_embeddings config) sequence_length))
                   else Inr (layers e)))"

subsection \<open>GPT-NeoX (\<open>easydel/modules/gpt_neo_x/modeling_gpt_neo_x_flax.py\<close>)\<close>

record GPTNeoXConfig =
  neox_max_position_embeddings :: nat
  neox_tie_word_embeddings :: bool
  use_parallel_residual :: bool

text \<open>
  After the embedding the call adds \<open>extra_embedding\<close> when there is one and applies the
  embedding dropout; both are inside \<open>layers\<close> here.
\<close>

definition GPTNeoXModel_call ::
    "GPTNeoXConfig \<Rightarrow> (int \<Rightarrow> 'h) \<Rightarrow> ('h batch \<Rightarrow> 'o) \<Rightarrow>
     int batch option \<Rightarrow> 'h batch option \<Rightarrow> error + 'o" where
  "GPTNeoXModel_call config embed_in layers input_ids input_embeds =
     (if input_ids \<noteq> None \<and> input_embeds \<noteq> None
      then Inl (ValueError
        ''You cannot specify both decoder_input_ids and decoder_input_embeds at the same time'')
      else
        (case (if input_embeds = None \<and> input_ids \<noteq> None
               then (case input_ids of
                       Some ids \<Rightarrow> Inr (embed embed_in ids)
                     | None \<Rightarrow> Inl (AttributeError ''NoneType object has no attribute astype''))
               else Inl (ValueError ''you should specify input_embeds or input_ids one of them'')) of
           Inl err \<Rightarrow> Inl err
         | Inr e \<Rightarrow>
             let sequence_length = seq_len e
             in if \<not> sequence_length \<le> neox_max_position_embeddings config
                then Inl (AssertionError
                  (max_position_message (neox_max_position_embeddings config) sequence_length))
                else Inr (layers e)))"

subsection \<open>DBRX (\<open>easydel/modules/dbrx/modelling_dbrx_flax.py\<close>)\<close>

definition DbrxModel_call ::
    "(int \<Rightarrow> 'h) \<Rightarrow> ('h batch \<Rightarrow> 'o) \<Rightarrow> int batch option \<Rightarrow> 'h batch option \<Rightarrow> error + 'o" where
  "DbrxModel_call wte layers input_ids input_embeds =
     (if input_ids \<noteq> None \<and> input_embeds \<noteq> None
      then Inl (ValueError
        ''You cannot specify both decoder_input_ids and decoder_input_embeds at the same time'')
      else
        (case (if input_embeds = None \<and> input_ids \<noteq> None
               then (case input_ids of
                       Some ids \<Rightarrow> Inr (embed wte ids)
                     | None \<Rightarrow> Inl (AttributeError ''NoneType object has no attribute astype''))
               else Inl (ValueError ''you should specify input_embeds or input_ids one of them'')) of
           Inl err \<Rightarrow> Inl err
         | Inr e \<Rightarrow> Inr (layers e)))"

subsection \<open>The language-model heads\<close>

text \<open>
  An array carries its element type. The head \<open>lm_head\<close> is a linear layer of the
  \<open>flax\<close> library and a parameter here, from the hidden states to an array with the
  element type the layer gives it. \<open>astype\<close> changes the element type; the values are
  abstract, and rounding them is not part of the model.
\<close>

datatype dtype = float16 | bfloat16 | float32 | float64

datatype 'v typed = Typed (dtype_of: dtype) (values_of: 'v)

definition astype :: "dtype \<Rightarrow> 'v typed \<Rightarrow> 'v typed" where
  "astype dt a = Typed dt (values_of a)"

text \<open>
  \<open>GPTNeoXForCausalLM.__call__\<close>: both branches of \<open>tie_word_embeddings\<close> call the head
  (the tied one after storing the transposed embedding table as its kernel,
  \<open>tied_lm_head\<close> here), and line 512 casts the result.
\<close>

definition GPTNeoXForCausalLM_call ::
    "GPTNeoXConfig \<Rightarrow> (int \<Rightarrow> 'h) \<Rightarrow> ('h batch \<Rightarrow> 'o) \<Rightarrow> ('o \<Rightarrow> 'v typed) \<Rightarrow>
     ('o \<Rightarrow> 'v typed) \<Rightarrow> int batch option \<Rightarrow> 'h batch option \<Rightarrow> error + 'v typed" where
  "GPTNeoXForCausalLM_call config embed_in layers lm_head tied_lm_head input_ids input_embeds =
     (case GPTNeoXModel_call config embed_in layers input_ids input_embeds of
        Inl err \<Rightarrow> Inl err
      | Inr hidden_states \<Rightarrow>
          let lm_logits = (if neox_tie_word_embeddings config
                           then tied_lm_head hidden_states
                           else lm_head hidden_states);
              lm_logits = astype float32 lm_logits
          in Inr lm_logits)"

text \<open>
  \<open>MistralForCausalLM.__call__\<close>: with tied embeddings the logits are a
  \<open>jax.lax.dot_general\<close> of the hidden states and the transposed embedding table, the
  parameter \<open>tied_logits\<close>; otherwise they are the head's result. Nothing follows.
\<close>

definition MistralForCausalLM_call ::
    "MistralConfig \<Rightarrow> (int \<Rightarrow> 'h) \<Rightarrow> ('h batch \<Rightarrow> 'o) \<Rightarrow> ('o \<Rightarrow> 'v typed) \<Rightarrow>
     ('o \<Rightarrow> 'v typed) \<Rightarrow> int batch option \<Rightarrow> 'h batch option \<Rightarrow> error + 'v typed" where
  "MistralForCausalLM_call config embed_tokens layers lm_head tied_logits input_ids inputs_embeds =
     (case MistralModel_call config embed_tokens layers input_ids inputs_embeds of
        Inl err \<Rightarrow> Inl err
      | Inr hidden_states \<Rightarrow>
          let lm_logits = (if tie_word_embeddings config
                           then tied_logits hidden_states
                           else lm_head hidden_states)
          in Inr lm_logits)"

text \<open>\<open>DbrxForCausalLM.__call__\<close>, lines 872 to 884, for the logits.\<close>

definition DbrxForCausalLM_call ::
    "(int \<Rightarrow> 'h) \<Rightarrow> ('h batch \<Rightarrow> 'o) \<Rightarrow> ('o \<Rightarrow> 'v typed) \<Rightarrow>
     int batch option \<Rightarrow> 'h batch option \<Rightarrow> error + 'v typed" where
  "DbrxForCausalLM_call wte layers lm_head input_ids input_embeds =
     (case DbrxModel_call wte layers input_ids input_embeds of
        Inl err \<Rightarrow> Inl err
      | Inr hidden_states \<Rightarrow> Inr (lm_head hidden_states))"

section \<open>Decoder blocks\<close>



section \<open>Properties of the NF4 quantiser\<close>

subsection \<open>Rows of a reshaped array\<close>

lemma length_rows_of [simp]: "length (rows_of nb bs xs) = nb"
  by (simp add: rows_of_def)

lemma nth_rows_of: "i < nb \<Longrightarrow> rows_of nb bs xs ! i = take bs (drop (i * bs) xs)"
  by (simp add: rows_of_def)

lemma rows_of_Suc: "rows_of (Suc k) n xs = take n xs # rows_of k n (drop n xs)"
proof -
  have "[0..<Suc k] = 0 # map Suc [0..<k]"
    by (simp add: upt_conv_Cons map_Suc_upt del: upt_Suc)
  then show ?thesis
    by (simp add: rows_of_def comp_def add.commute del: upt_Suc)
qed

lemma rows_of_0 [simp]: "rows_of 0 n xs = []"
  by (simp add: rows_of_def)

lemma length_row_of:
  assumes "i < nb" "length xs = nb * bs"
  shows "length (rows_of nb bs xs ! i) = bs"
proof -
  have "Suc i * bs \<le> nb * bs" using assms(1) by (intro mult_le_mono1) simp
  then have "bs \<le> nb * bs - i * bs" by simp
  then show ?thesis using assms by (simp add: nth_rows_of)
qed

lemma map_length_rows_of:
  assumes "length xs = nb * bs"
  shows "map length (rows_of nb bs xs) = replicate nb bs"
  by (rule nth_equalityI) (simp_all add: length_row_of assms)

lemma length_concat_scaled:
  assumes "length as = length rows"
  shows "length (concat (map2 (\<lambda>row a. map (g a) row) rows as)) = length (concat rows)"
  using assms
  by (induction rows as rule: list_induct2') simp_all

lemma length_concat_rows_of:
  assumes "length xs = nb * bs"
  shows "length (concat (rows_of nb bs xs)) = nb * bs"
  by (simp add: length_concat map_length_rows_of assms sum_list_replicate)

lemma length_unpack_nibbles [simp]: "length (unpack_nibbles ps) = 2 * length ps"
  by (induction ps) (simp_all add: unpack_nibbles_def unpack_byte_def)

lemma nibble_bound: "unat ((x :: 8 word) AND 0xF) < 16"
proof -
  have "unat (x AND 0xF) \<le> unat (0xF :: 8 word)"
    by (rule word_and_le1 [THEN word_le_nat_alt [THEN iffD1]])
  then show ?thesis by simp
qed

lemma unpack_nibbles_bound: "c \<in> set (unpack_nibbles ps) \<Longrightarrow> unat c < 16"
  by (auto simp: unpack_nibbles_def unpack_byte_def nibble_bound)

lemma NF4_TABLE_finite: "i < 16 \<Longrightarrow> \<exists>t. NF4_TABLE ! i = Fin t"
  unfolding NF4_TABLE_def by (intro exI, rule nth_map) simp

lemma nf4_lookup_finite: "unat c < 16 \<Longrightarrow> \<exists>t. nf4_lookup c = Fin t"
  unfolding nf4_lookup_def by (rule NF4_TABLE_finite)

lemma fmul_zero: "\<exists>t. v = Fin t \<Longrightarrow> fmul v (Fin 0) = Fin 0"
  by auto

lemma fold_fmax_zero: "set xs \<subseteq> {Fin 0} \<Longrightarrow> fold fmax xs (Fin 0) = Fin 0"
  by (induction xs) auto

lemma row_max_zero:
  assumes "xs \<noteq> []" "set xs \<subseteq> {Fin 0}"
  shows "row_max (map fabs xs) = Fin 0"
proof -
  obtain y ys where xs: "xs = y # ys" using assms(1) by (cases xs) auto
  then have "y = Fin 0" "set (map fabs ys) \<subseteq> {Fin 0}" using assms(2) by auto
  then show ?thesis by (simp add: xs fold_fmax_zero)
qed

lemma zero_row:
  assumes "0 < bs" "length xs = nb * bs" "b < nb"
      and "\<forall>j<bs. xs ! (b * bs + j) = Fin 0"
  shows "rows_of nb bs xs ! b \<noteq> []" "set (rows_of nb bs xs ! b) \<subseteq> {Fin 0}"
proof -
  have l: "length (rows_of nb bs xs ! b) = bs" using assms by (simp add: length_row_of)
  then show "rows_of nb bs xs ! b \<noteq> []" using assms(1) by auto
  have "Suc b * bs \<le> nb * bs" using assms(3) by (intro mult_le_mono1) simp
  then have le: "b * bs + bs \<le> length xs" using assms(2) by simp
  show "set (rows_of nb bs xs ! b) \<subseteq> {Fin 0}"
  proof
    fix v assume "v \<in> set (rows_of nb bs xs ! b)"
    then obtain j where j: "j < bs" "v = rows_of nb bs xs ! b ! j"
      using l by (metis in_set_conv_nth)
    have "v = xs ! (b * bs + j)"
      using j assms(3) le by (simp add: nth_rows_of)
    then show "v \<in> {Fin 0}" using assms(4) j by simp
  qed
qed


subsection \<open>Nibbles\<close>

lemma nibble_take_bit: "0 \<le> (c::int) \<Longrightarrow> c \<le> 15 \<Longrightarrow> take_bit 4 c = c"
  by (simp add: take_bit_int_eq_self)

lemma mask_nibble: "(0xF :: 8 word) = mask 4"
  by (simp add: mask_eq_exp_minus_1)

lemma high_nibble_pack:
  assumes "take_bit 4 a = a" "take_bit 4 b = b"
  shows "drop_bit 4 (word_of_int (push_bit 4 a OR b) :: 8 word) AND 0xF = word_of_int a"
proof (rule bit_word_eqI)
  fix n assume n: "n < LENGTH(8)"
  have b: "\<not> bit b (4 + n)"
    by (metis assms(2) bit_take_bit_iff not_add_less1)
  have a: "bit a n \<Longrightarrow> n < 4"
    by (metis assms(1) bit_take_bit_iff)
  show "bit (drop_bit 4 (word_of_int (push_bit 4 a OR b) :: 8 word) AND 0xF) n
        = bit (word_of_int a :: 8 word) n"
    unfolding mask_nibble using n a b by (auto simp: bit_simps)
qed

lemma low_nibble_pack:
  assumes "take_bit 4 a = a" "take_bit 4 b = b"
  shows "(word_of_int (push_bit 4 a OR b) :: 8 word) AND 0xF = word_of_int b"
proof (rule bit_word_eqI)
  fix n assume n: "n < LENGTH(8)"
  have b: "bit b n \<Longrightarrow> n < 4"
    by (metis assms(2) bit_take_bit_iff)
  show "bit ((word_of_int (push_bit 4 a OR b) :: 8 word) AND 0xF) n
        = bit (word_of_int b :: 8 word) n"
    unfolding mask_nibble using n b by (auto simp: bit_simps)
qed

lemma uint_nibble: "0 \<le> (c::int) \<Longrightarrow> c \<le> 15 \<Longrightarrow> uint (word_of_int c :: 8 word) = c"
  by (simp add: uint_word_of_int take_bit_int_eq_self)

lemma unpack_pack_pair:
  assumes "0 \<le> a" "a \<le> 15" "0 \<le> b" "b \<le> 15"
  shows "map uint (unpack_byte (pack_row [a, b])) = [a, b]"
  using assms
  by (simp add: unpack_byte_def pack_row_def high_nibble_pack low_nibble_pack
      nibble_take_bit uint_nibble)

lemma unpack_pack_rows:
  assumes "even (length cs)" "\<forall>c\<in>set cs. 0 \<le> c \<and> c \<le> 15"
  shows "map uint (unpack_nibbles (map pack_row (rows_of (length cs div 2) 2 cs))) = cs"
  using assms
proof (induction cs rule: induct_list012)
  case 1
  then show ?case by (simp add: unpack_nibbles_def)
next
  case (2 x)
  then show ?case by simp
next
  case (3 x y zs)
  then have "map uint (unpack_nibbles (map pack_row (rows_of (length zs div 2) 2 zs))) = zs"
    by simp
  moreover have "map uint (unpack_byte (pack_row [x, y])) = [x, y]"
    using 3 by (intro unpack_pack_pair) auto
  ultimately show ?case by (simp add: unpack_nibbles_def rows_of_Suc)
qed

text \<open>
  C8. For every sequence of 4-bit codes of even length, packing consecutive pairs into
  bytes (first code in the high nibble, second in the low nibble) as
  \<open>single_quantize_and_pack_nf4\<close> does, and unpacking the nibbles as
  \<open>single_dequantize_nf4\<close> does, succeeds and gives back the sequence, in order.
\<close>

theorem nf4_pack_unpack_roundtrip:
  assumes "even (length cs)" and "\<forall>c\<in>set cs. 0 \<le> c \<and> c \<le> 15"
  shows "\<exists>packed. pack_codes cs = Inr packed \<and> map uint (unpack_nibbles packed) = cs"
proof -
  have "pack_codes cs = Inr (map pack_row (rows_of (length cs div 2) 2 cs))"
    using assms(1) by (simp add: pack_codes_def reshape_rows_def)
  then show ?thesis using unpack_pack_rows [OF assms] by simp
qed

theorem nf4_pack_unpack_roundtrip_witness:
  "even (length [3, 12, 0, 15 :: int]) \<and>
   pack_codes [3, 12, 0, 15] = Inr [60, 15] \<and>
   map uint (unpack_nibbles [60, 15]) = [3, 12, 0, 15]"
proof -
  have p: "pack_codes [3, 12, 0, 15] = Inr [60, 15]"
    by (simp add: pack_codes_def reshape_rows_def rows_of_def pack_row_def upt_rec)
  show ?thesis
    using nf4_pack_unpack_roundtrip [of "[3, 12, 0, 15]"] by (simp add: p)
qed

text \<open>
  C4. Take any input whose element count is even and a multiple of the (positive) block
  size. For every block of it that consists of zeros only, quantising and then
  dequantising raise nothing, the block's stored absolute maximum is zero, and the
  block of the result is exactly zero in every entry: no NaN and no infinity.
\<close>

theorem nf4_zero_block_roundtrip:
  assumes pos: "0 < bs"
    and len: "length blocks = nb * bs"
    and ev: "even (length blocks)"
    and b: "b < nb"
    and zero: "\<forall>j<bs. blocks ! (b * bs + j) = Fin 0"
  shows "\<exists>packed absmax out.
      single_quantize_and_pack_nf4 blocks bs = Inr (packed, absmax) \<and>
      single_dequantize_nf4 packed absmax bs = Inr out \<and>
      length out = nb \<and> absmax ! b = Fin 0 \<and>
      out ! b = replicate bs (Fin 0)"
proof -
  define rows where "rows = rows_of nb bs blocks"
  define absmax where "absmax = map (\<lambda>row. row_max (map fabs row)) rows"
  define quantized where "quantized =
    map (\<lambda>v. int (searchsorted NF4_BOUNDARIES v) - 1)
      (concat (map2 (\<lambda>row a. map (\<lambda>v. fdiv v a) row) rows absmax))"
  define packed where "packed = map pack_row (rows_of (length quantized div 2) 2 quantized)"
  define deq where "deq = map nf4_lookup (unpack_nibbles packed)"
  define out where "out = map2 (\<lambda>row a. map (\<lambda>v. fmul v a) row) (rows_of nb bs deq) absmax"
  have r: "reshape_rows bs blocks = Inr rows"
    using pos len by (simp add: reshape_rows_def rows_def)
  have la: "length absmax = nb" by (simp add: absmax_def rows_def)
  have lq: "length quantized = nb * bs"
    unfolding quantized_def
    by (simp add: length_concat_scaled [where g = "\<lambda>a v. fdiv v a"] la rows_def
        length_concat_rows_of len)
  have pc: "pack_codes quantized = Inr packed"
    using ev lq len by (simp add: pack_codes_def reshape_rows_def packed_def)
  have q: "single_quantize_and_pack_nf4 blocks bs = Inr (packed, absmax)"
    unfolding single_quantize_and_pack_nf4_def
    by (simp add: r Let_def pc flip: absmax_def quantized_def)
  have ld: "length deq = nb * bs"
    using ev lq len by (simp add: deq_def packed_def)
  have d: "single_dequantize_nf4 packed absmax bs = Inr out"
    unfolding single_dequantize_nf4_def Let_def
    using ld by (simp add: reshape_to_def la out_def flip: deq_def)
  have lo: "length out = nb" by (simp add: out_def la)
  have ab: "absmax ! b = Fin 0"
    using zero_row [OF pos len b zero] b
    by (simp add: absmax_def rows_def row_max_zero)
  have fin: "\<forall>v \<in> set deq. \<exists>t. v = Fin t"
    by (auto simp: deq_def dest!: unpack_nibbles_bound nf4_lookup_finite)
  have lr: "length (rows_of nb bs deq ! b) = bs"
    using b ld by (simp add: length_row_of)
  have sub: "set (rows_of nb bs deq ! b) \<subseteq> set deq"
    using b by (simp add: nth_rows_of) (meson order_trans set_drop_subset set_take_subset)
  have "out ! b = map (\<lambda>v. fmul v (Fin 0)) (rows_of nb bs deq ! b)"
    using b la ab by (simp add: out_def)
  also have "\<dots> = replicate bs (Fin 0)"
  proof (rule nth_equalityI)
    show "length (map (\<lambda>v. fmul v (Fin 0)) (rows_of nb bs deq ! b)) =
          length (replicate bs (Fin 0))"
      using lr by simp
  next
    fix i assume "i < length (map (\<lambda>v. fmul v (Fin 0)) (rows_of nb bs deq ! b))"
    then have i: "i < bs" using lr by simp
    then have "rows_of nb bs deq ! b ! i \<in> set deq"
      using sub lr by (metis nth_mem subsetD)
    then have "fmul (rows_of nb bs deq ! b ! i) (Fin 0) = Fin 0"
      using fin by (intro fmul_zero) blast
    then show "map (\<lambda>v. fmul v (Fin 0)) (rows_of nb bs deq ! b) ! i =
               replicate bs (Fin 0) ! i"
      using i lr by simp
  qed
  finally have ob: "out ! b = replicate bs (Fin 0)" .
  show ?thesis using q d lo ab ob by blast
qed


theorem nf4_zero_block_roundtrip_witness:
  "\<exists>packed absmax out.
      single_quantize_and_pack_nf4 [Fin 0, Fin 0, Fin 1, Fin (- 2)] 2 = Inr (packed, absmax) \<and>
      single_dequantize_nf4 packed absmax 2 = Inr out \<and>
      length out = 2 \<and> absmax ! 0 = Fin 0 \<and> out ! 0 = replicate 2 (Fin 0)"
proof -
  have z: "\<forall>j<2. [Fin 0, Fin 0, Fin 1, Fin (- 2)] ! (0 * 2 + j) = Fin 0"
    by (auto simp: less_2_cases_iff)
  show ?thesis
    using nf4_zero_block_roundtrip [of 2 "[Fin 0, Fin 0, Fin 1, Fin (- 2)]" 2 0, OF _ _ _ _ z]
    by simp
qed

text \<open>
  C10. With \<open>do_init=True\<close> the constructor of \<open>LinearNF4\<close> raises a \<open>TypeError\<close>
  whatever the other arguments are, because it calls \<open>_quantize_kernel\<close> without the
  block size; no object and so no parameter results. With \<open>do_init=False\<close> it returns an
  object whose \<open>packed_kernel\<close> and \<open>scales\<close> are \<open>None\<close>.
\<close>

theorem LinearNF4_init_do_init:
  "LinearNF4_init in_f out_f use_b True kernel_init bias_init rngs bsize =
     Inl (TypeError ''_quantize_kernel() missing 1 required positional argument: block_size'') \<and>
   (\<exists>obj. LinearNF4_init in_f out_f use_b False kernel_init bias_init rngs bsize = Inr obj \<and>
      packed_kernel obj = None \<and> scales obj = None)"
  by (simp add: LinearNF4_init_def LinearNF4_quantize_kernel_def rngs_params_def)


section \<open>Properties of the router\<close>

subsection \<open>The uniform expert assignment\<close>

lemma wrap_i32_id: "0 \<le> n \<Longrightarrow> n < 2 ^ 31 \<Longrightarrow> wrap_i32 n = n"
  by (simp add: wrap_i32_def)

lemma take_drop_map_upt:
  assumes "t * k + k \<le> n"
  shows "take k (drop (t * k) (map f [0..<n])) = map (\<lambda>j. f (t * k + j)) [0..<k]"
proof (rule nth_equalityI)
  show "length (take k (drop (t * k) (map f [0..<n]))) = length (map (\<lambda>j. f (t * k + j)) [0..<k])"
    using assms by simp
next
  fix i assume "i < length (take k (drop (t * k) (map f [0..<n])))"
  then have "i < k" by simp
  then show "take k (drop (t * k) (map f [0..<n])) ! i = map (\<lambda>j. f (t * k + j)) [0..<k] ! i"
    using assms by simp
qed

lemma uniform_experts_eq:
  assumes "tokens * k < 2 ^ 31"
  shows "uniform_experts tokens k e =
         Inr (map (\<lambda>t. map (\<lambda>j. int ((t * k + j) mod e)) [0..<k]) [0..<tokens])"
proof -
  have "int (tokens * k) < int (2 ^ 31)"
    using assms by (simp only: of_nat_less_iff)
  then have "int (tokens * k) < 2 ^ 31" by simp
  then have w: "wrap_i32 (int (tokens * k)) = int (tokens * k)"
    by (intro wrap_i32_id) simp_all
  have r: "take k (drop (t * k) (map (\<lambda>i. int i mod int e) [0..<tokens * k]))
           = map (\<lambda>j. int ((t * k + j) mod e)) [0..<k]" if "t < tokens" for t
  proof -
    have "Suc t * k \<le> tokens * k" using that by (intro mult_le_mono1) simp
    then have "t * k + k \<le> tokens * k" by simp
    then show ?thesis by (simp add: take_drop_map_upt zmod_int)
  qed
  show ?thesis
    unfolding uniform_experts_def Let_def w nat_int
    by (simp add: reshape_to_def rows_of_def r)
qed

lemma collect_map_Inr:
  assumes "\<forall>x\<in>set xs. f x = Inr (g x)"
  shows "collect (map f xs) = Inr (map g xs)"
  using assms by (induction xs) simp_all

lemma length_softmax [simp]: "length (softmax l) = length l"
  by (simp add: softmax_def)

lemma top_k_Inr:
  assumes "k \<le> length ws"
  shows "top_k ws k =
    Inr (map (\<lambda>i. ws ! i) (take k (sort_key (\<lambda>i. - (ws ! i)) [0..<length ws])),
         map int (take k (sort_key (\<lambda>i. - (ws ! i)) [0..<length ws])))"
  using assms by (simp add: top_k_def Let_def)

lemma jitter_raises:
  "\<exists>e. jitter cfg normal x = Inl e"
  by (simp add: jitter_def DbrxRouter_make_rng_def Let_def split: option.splits)

lemma DbrxRouter_logits_no_jitter:
  "deterministic \<or> moe_jitter_eps cfg = None \<Longrightarrow>
   DbrxRouter_logits cfg layer normal x deterministic = Inr (map layer x)"
  by (auto simp: DbrxRouter_logits_def)

lemma route_uniform:
  assumes u: "uniform_expert_assignment cfg"
    and len: "\<forall>l\<in>set logits. moe_top_k cfg \<le> length l"
    and small: "length logits * moe_top_k cfg < 2 ^ 31"
  shows "\<exists>w tw. DbrxRouter_route cfg logits =
          Inr (w, tw, map (\<lambda>t. map (\<lambda>j. int ((t * moe_top_k cfg + j) mod moe_num_experts cfg))
                                 [0..<moe_top_k cfg]) [0..<length logits])"
proof -
  let ?k = "moe_top_k cfg"
  let ?g = "\<lambda>ws. (map (\<lambda>i. ws ! i) (take ?k (sort_key (\<lambda>i. - (ws ! i)) [0..<length ws])),
         map int (take ?k (sort_key (\<lambda>i. - (ws ! i)) [0..<length ws])))"
  have "\<forall>w\<in>set (map softmax logits). top_k w ?k = Inr (?g w)"
  proof
    fix w assume "w \<in> set (map softmax logits)"
    then have "?k \<le> length w" using len by auto
    then show "top_k w ?k = Inr (?g w)" by (rule top_k_Inr)
  qed
  then have c: "collect (map (\<lambda>w. top_k w ?k) (map softmax logits)) = Inr (map ?g (map softmax logits))"
    by (rule collect_map_Inr)
  show ?thesis
    unfolding DbrxRouter_route_def Let_def c
    using u small by (simp add: uniform_experts_eq)
qed

text \<open>
  C1, as the code has it. With \<open>uniform_expert_assignment=True\<close> and no jitter
  (\<open>deterministic=True\<close>, or \<open>moe_jitter_eps\<close> not set), for every input and every
  linear layer with \<open>moe_num_experts\<close> outputs (so every value of the logits), the router
  returns, and entry \<open>j\<close> of the top-k indices of the token with flattened index \<open>t\<close> is
  \<open>(t * moe_top_k + j) mod moe_num_experts\<close>: the row-major position of the entry in the
  index array, modulo the number of experts. For \<open>moe_top_k = 1\<close> this is
  \<open>t mod moe_num_experts\<close>. The element count has to fit an int32, and \<open>jax.lax.top_k\<close>
  needs \<open>moe_top_k \<le> moe_num_experts\<close>.
\<close>

theorem uniform_assignment_flat_index:
  assumes "uniform_expert_assignment cfg"
    and "deterministic \<or> moe_jitter_eps cfg = None"
    and "\<forall>v. length (layer v) = moe_num_experts cfg"
    and "moe_top_k cfg \<le> moe_num_experts cfg"
    and "length x * moe_top_k cfg < 2 ^ 31"
  shows "\<exists>w tw. DbrxRouter_call cfg layer normal x deterministic =
          Inr (w, tw, map (\<lambda>t. map (\<lambda>j. int ((t * moe_top_k cfg + j) mod moe_num_experts cfg))
                                 [0..<moe_top_k cfg]) [0..<length x])"
proof -
  have l: "DbrxRouter_logits cfg layer normal x deterministic = Inr (map layer x)"
    using assms(2) by (rule DbrxRouter_logits_no_jitter)
  have "\<forall>l\<in>set (map layer x). moe_top_k cfg \<le> length l"
    using assms(3,4) by auto
  then show ?thesis
    using route_uniform [of cfg "map layer x"] assms(1,5) l
    by (simp add: DbrxRouter_call_def)
qed

text \<open>Two tokens, two slots each, four experts.\<close>

theorem uniform_assignment_flat_index_witness:
  "\<exists>w tw. DbrxRouter_call
      \<lparr>moe_num_experts = 4, moe_top_k = 2, moe_jitter_eps = None,
       moe_normalize_expert_weights = None, uniform_expert_assignment = True\<rparr>
      (\<lambda>v. [0, 0, 0, 0]) (\<lambda>t h. 0) [[0], [0]] True = Inr (w, tw, [[0, 1], [2, 3]])"
  using uniform_assignment_flat_index
    [where cfg = "\<lparr>moe_num_experts = 4, moe_top_k = 2, moe_jitter_eps = None,
       moe_normalize_expert_weights = None, uniform_expert_assignment = True\<rparr>"
       and layer = "\<lambda>v. [0, 0, 0, 0]" and x = "[[0], [0]]" and normal = "\<lambda>t h. 0"
       and deterministic = True]
  by (simp add: upt_rec)

text \<open>
  The indices of a token are not its flattened token index modulo the number of experts:
  with two slots per token and four experts, token 0 gets experts 0 and 1, and token 1
  gets experts 2 and 3.
\<close>

theorem uniform_assignment_token_index_counterexample:
  "map_sum id (snd \<circ> snd) (DbrxRouter_call
      \<lparr>moe_num_experts = 4, moe_top_k = 2, moe_jitter_eps = None,
       moe_normalize_expert_weights = None, uniform_expert_assignment = True\<rparr>
      (\<lambda>v. [0, 0, 0, 0]) (\<lambda>t h. 0) [[0], [0]] True) = Inr [[0, 1], [2, 3]] \<and>
   [[0, 1], [2, 3]] \<noteq> [[0 mod 4, 0 mod 4], [1 mod 4, 1 mod (4::int)]]"
proof -
  let ?cfg = "\<lparr>moe_num_experts = 4, moe_top_k = 2, moe_jitter_eps = None,
       moe_normalize_expert_weights = None, uniform_expert_assignment = True\<rparr>"
  have "\<exists>w tw. DbrxRouter_route ?cfg [[0, 0, 0, 0], [0, 0, 0, 0]] =
      Inr (w, tw, map (\<lambda>t. map (\<lambda>j. int ((t * moe_top_k ?cfg + j) mod moe_num_experts ?cfg))
                                 [0..<moe_top_k ?cfg]) [0..<length [[0, 0, 0, 0], [0, 0, 0, 0::real]]])"
    by (rule route_uniform) simp_all
  then obtain w tw where
    "DbrxRouter_route ?cfg [[0, 0, 0, 0], [0, 0, 0, 0]] = Inr (w, tw, [[0, 1], [2, 3]])"
    by (auto simp: upt_rec)
  then show ?thesis
    by (simp add: DbrxRouter_call_def DbrxRouter_logits_def)
qed

subsection \<open>Jitter\<close>

text \<open>
  C5. A call of the router with \<open>deterministic=False\<close> and \<open>moe_jitter_eps\<close> set, here
  to 0.1, applies no factor at all: \<open>jitter\<close> raises the \<open>AttributeError\<close> of line 473
  before a sample is drawn, and the call raises it.
\<close>

theorem jitter_raises_attribute_error:
  "jitter \<lparr>moe_num_experts = 4, moe_top_k = 1, moe_jitter_eps = Some (1 / 10),
       moe_normalize_expert_weights = None, uniform_expert_assignment = False\<rparr>
     normal x = Inl (AttributeError ''DbrxRouter object has no attribute make_rng'') \<and>
   DbrxRouter_call \<lparr>moe_num_experts = 4, moe_top_k = 1, moe_jitter_eps = Some (1 / 10),
       moe_normalize_expert_weights = None, uniform_expert_assignment = False\<rparr>
     layer normal x False = Inl (AttributeError ''DbrxRouter object has no attribute make_rng'')"
  by (simp add: jitter_def DbrxRouter_make_rng_def DbrxRouter_call_def DbrxRouter_logits_def
      Let_def)

subsection \<open>Top-k weights\<close>














section \<open>Properties of the model forward calls\<close>

subsection \<open>Input validation\<close>

text \<open>
  \<open>MistralModel\<close> raises its \<open>ValueError\<close> exactly when both or neither of
  \<open>input_ids\<close> and \<open>inputs_embeds\<close> are given. \<open>GPTNeoXModel\<close> and \<open>DbrxModel\<close>
  raise one unless \<open>input_ids\<close> is given alone.
\<close>

lemma MistralModel_call_ValueError_iff:
  "(\<exists>m. MistralModel_call config embed_tokens layers input_ids inputs_embeds = Inl (ValueError m))
   \<longleftrightarrow> (input_ids = None) \<noteq> (inputs_embeds \<noteq> None)"
  by (cases input_ids; cases inputs_embeds) (simp_all add: MistralModel_call_def Let_def)

lemma GPTNeoXModel_call_ValueError_iff:
  "(\<exists>m. GPTNeoXModel_call config embed_in layers input_ids input_embeds = Inl (ValueError m))
   \<longleftrightarrow> \<not> (input_ids \<noteq> None \<and> input_embeds = None)"
  by (cases input_ids; cases input_embeds) (simp_all add: GPTNeoXModel_call_def Let_def)

lemma DbrxModel_call_ValueError_iff:
  "(\<exists>m. DbrxModel_call wte layers input_ids input_embeds = Inl (ValueError m))
   \<longleftrightarrow> \<not> (input_ids \<noteq> None \<and> input_embeds = None)"
  by (cases input_ids; cases input_embeds) (simp_all add: DbrxModel_call_def)

text \<open>
  C2. A call of \<open>GPTNeoXModel\<close> or of \<open>DbrxModel\<close> with embeddings and without
  \<open>input_ids\<close> takes the \<open>else\<close> branch of the second test and raises
  \<open>ValueError\<close>.
\<close>

theorem input_embeds_alone_rejected:
  "GPTNeoXModel_call config embed_in layers None (Some e) =
     Inl (ValueError ''you should specify input_embeds or input_ids one of them'') \<and>
   DbrxModel_call wte layers' None (Some e') =
     Inl (ValueError ''you should specify input_embeds or input_ids one of them'')"
  by (simp add: GPTNeoXModel_call_def DbrxModel_call_def)

subsection \<open>The maximum sequence length\<close>

text \<open>
  Where the check is reached, it does what is asked of it. A call of \<open>MistralModel\<close>
  with exactly one of \<open>input_ids\<close> and \<open>inputs_embeds\<close>, and a call of
  \<open>GPTNeoXModel\<close> with \<open>input_ids\<close> alone: when the sequence length exceeds
  \<open>max_position_embeddings\<close> the call raises an \<open>AssertionError\<close> whose message holds
  the configured maximum and the sequence length, and the layers are not run; otherwise
  the check passes and the layers run.
\<close>

lemma max_position_check:
  "MistralModel_call config embed_tokens layers (Some ids) None =
     (if max_position_embeddings config < seq_len ids
      then Inl (AssertionError
        (''Maximum Position Embedding Reached ! (Excepted <= ''
           @ str_nat (max_position_embeddings config) @ '' got '' @ str_nat (seq_len ids) @ '')''))
      else Inr (layers (embed embed_tokens ids))) \<and>
   MistralModel_call config embed_tokens layers None (Some e) =
     (if max_position_embeddings config < seq_len e
      then Inl (AssertionError
        (''Maximum Position Embedding Reached ! (Excepted <= ''
           @ str_nat (max_position_embeddings config) @ '' got '' @ str_nat (seq_len e) @ '')''))
      else Inr (layers e)) \<and>
   GPTNeoXModel_call nconfig embed_in nlayers (Some ids) None =
     (if neox_max_position_embeddings nconfig < seq_len ids
      then Inl (AssertionError
        (''Maximum Position Embedding Reached ! (Excepted <= ''
           @ str_nat (neox_max_position_embeddings nconfig) @ '' got '' @ str_nat (seq_len ids) @ '')''))
      else Inr (nlayers (embed embed_in ids)))"
  by (simp add: MistralModel_call_def GPTNeoXModel_call_def Let_def max_position_message_def
      embed_def not_le)

lemma max_position_check_example:
  "MistralModel_call
     \<lparr>max_position_embeddings = 2, tie_word_embeddings = False, use_scan_mlp = False,
      scan_mlp_chunk_size = 1\<rparr> id id (Some (Batch 1 3 [5, 6, 7])) None =
     Inl (AssertionError ''Maximum Position Embedding Reached ! (Excepted <= 2 got 3)'')"
  by (simp add: max_position_check str_nat.simps digit_char_def)

text \<open>
  C9. Not every model forward call makes the check. \<open>DbrxModel.__call__\<close> has none:
  with \<open>input_ids\<close> alone it runs the layers whatever the sequence length is. And
  \<open>GPTNeoXModel\<close> with embeddings alone never reaches its check: three positions
  against a maximum of two raise the \<open>ValueError\<close> of the input validation, not the
  \<open>AssertionError\<close>.
\<close>

theorem sequence_length_unchecked:
  "DbrxModel_call wte layers (Some ids) None = Inr (layers (embed wte ids)) \<and>
   GPTNeoXModel_call
     \<lparr>neox_max_position_embeddings = 2, neox_tie_word_embeddings = False,
      use_parallel_residual = True\<rparr> embed_in nlayers None (Some (Batch 1 3 [e1, e2, e3])) =
     Inl (ValueError ''you should specify input_embeds or input_ids one of them'')"
  by (simp add: DbrxModel_call_def GPTNeoXModel_call_def)

subsection \<open>The element type of the logits\<close>

text \<open>
  \<open>GPTNeoXForCausalLM\<close> returns float32 logits whatever the head produces.
  \<open>MistralForCausalLM\<close> (with untied embeddings) and \<open>DbrxForCausalLM\<close> return what
  the head produces, unchanged.
\<close>

lemma GPTNeoXForCausalLM_logits_float32:
  "GPTNeoXForCausalLM_call config embed_in layers lm_head tied_lm_head input_ids input_embeds
     = Inr logits \<Longrightarrow> dtype_of logits = float32"
  by (auto simp: GPTNeoXForCausalLM_call_def astype_def Let_def split: sum.splits)

lemma Mistral_Dbrx_logits_uncast:
  "MistralForCausalLM_call
     (config\<lparr>tie_word_embeddings := False\<rparr>) embed_tokens layers lm_head tied_logits
     input_ids inputs_embeds
   = map_sum id lm_head
       (MistralModel_call (config\<lparr>tie_word_embeddings := False\<rparr>) embed_tokens layers
          input_ids inputs_embeds) \<and>
   DbrxForCausalLM_call wte dlayers dlm_head input_ids input_embeds
   = map_sum id dlm_head (DbrxModel_call wte dlayers input_ids input_embeds)"
  by (simp add: MistralForCausalLM_call_def DbrxForCausalLM_call_def Let_def map_sum_def
      split: sum.splits)

text \<open>
  C3. With a head that produces bfloat16, as a linear layer constructed with
  \<open>dtype=jnp.bfloat16\<close> does, the logits of \<open>MistralForCausalLM\<close> and of
  \<open>DbrxForCausalLM\<close> are bfloat16, and those of \<open>GPTNeoXForCausalLM\<close> are float32.
\<close>

theorem causal_lm_logits_uncast_bfloat16:
  "map_sum id dtype_of (MistralForCausalLM_call
     \<lparr>max_position_embeddings = 2, tie_word_embeddings = False, use_scan_mlp = False,
      scan_mlp_chunk_size = 1\<rparr> id id (Typed bfloat16) (Typed bfloat16)
     (Some (Batch 1 1 [5])) None) = Inr bfloat16 \<and>
   map_sum id dtype_of (DbrxForCausalLM_call id id (Typed bfloat16) (Some (Batch 1 1 [5])) None)
     = Inr bfloat16 \<and>
   map_sum id dtype_of (GPTNeoXForCausalLM_call
     \<lparr>neox_max_position_embeddings = 2, neox_tie_word_embeddings = False,
      use_parallel_residual = True\<rparr> id id (Typed bfloat16) (Typed bfloat16)
     (Some (Batch 1 1 [5])) None) = Inr float32 \<and>
   bfloat16 \<noteq> float32"
  by (simp add: MistralForCausalLM_call_def MistralModel_call_def DbrxForCausalLM_call_def
      DbrxModel_call_def GPTNeoXForCausalLM_call_def GPTNeoXModel_call_def astype_def
      embed_def Let_def)

section \<open>Properties of the decoder blocks\<close>



end
